theory Spec2Isabelle
  imports Main "HOL-Library.Word"
begin


section \<open>Data model of the ClusterQueue controller\<close>

text \<open>
  The theory embeds \<^verbatim>\<open>pkg/controller/core/clusterqueue_controller.go\<close>: the
  reconcile function, the four event predicates, the synchronization of the flavors'
  back-references and the workload handler. The send on the workload channel
  (\<^verbatim>\<open>NotifyWorkloadUpdate\<close>) and the wiring (\<^verbatim>\<open>SetupWithManager\<close>) are left out.
  The API types live in other packages; only the fields this file reads are kept.

  A Go slice may be nil; \<^verbatim>\<open>reflect.DeepEqual\<close> tells a nil slice from an empty
  one, while \<^verbatim>\<open>range\<close> visits no element of either. A slice is therefore a list
  option, \<open>None\<close> being nil.
\<close>

type_synonym 'a slice = "'a list option"

definition elems :: "'a slice \<Rightarrow> 'a list" where
  "elems s = (case s of None \<Rightarrow> [] | Some xs \<Rightarrow> xs)"

text \<open>
  A Go \<^verbatim>\<open>error\<close> is \<open>error option\<close>, \<open>None\<close> being nil. The controller only
  ever asks whether an error is a not-found error.
\<close>

datatype error = NotFound | Conflict | Other string

text \<open>
  \<^verbatim>\<open>kueue.Flavor\<close>, an entry of a resource group. The controller reads its name;
  the remaining content (the quota) only matters to \<^verbatim>\<open>reflect.DeepEqual\<close> and is
  kept as a value of an arbitrary type \<open>'q\<close>.
\<close>

record 'q Flavor =
  f_Name :: string
  f_Quota :: 'q

record 'q Resource =
  res_Name :: string
  res_Flavors :: "'q Flavor slice"

record 'q ClusterQueueSpec =
  Resources :: "'q Resource slice"

text \<open>
  Modelled from the spec: the declaration of \<^verbatim>\<open>kueue.ClusterQueueStatus\<close> is not
  part of the controller's file; section 6 of the specification gives its shape as
  used resources (a mapping from resource name to quantity), the number of admitted
  workloads and the number of pending workloads. The two counters are \<^verbatim>\<open>int32\<close>
  in the controller (\<^verbatim>\<open>int32(workloads)\<close>).
\<close>

record ClusterQueueStatus =
  UsedResources :: "string \<rightharpoonup> int"
  AdmittedWorkloads :: "32 word"
  PendingWorkloads :: "32 word"

record 'q ClusterQueue =
  cq_Name :: string
  cq_Spec :: "'q ClusterQueueSpec"
  cq_Status :: ClusterQueueStatus

text \<open>
  \<^verbatim>\<open>kueue.ResourceFlavor\<close>: its name and the back-reference index
  \<^verbatim>\<open>ClusterQueues map[ClusterQueueReference]string\<close>, which may be a nil map.
\<close>

record ResourceFlavor =
  rf_Name :: string
  rf_ClusterQueues :: "(string \<rightharpoonup> string) option"

record Admission =
  adm_ClusterQueue :: string

record Workload =
  w_Name :: string
  w_Admission :: "Admission option"

datatype 'q Object =
    ClusterQueueObject "'q ClusterQueue"
  | WorkloadObject Workload
  | OtherObject

text \<open>The zero values \<^verbatim>\<open>kueue.ClusterQueueSpec{}\<close> and \<^verbatim>\<open>kueue.ClusterQueue{}\<close>.\<close>

definition zero_ClusterQueueSpec :: "'q ClusterQueueSpec" where
  "zero_ClusterQueueSpec = \<lparr>Resources = None\<rparr>"

definition zero_ClusterQueueStatus :: ClusterQueueStatus where
  "zero_ClusterQueueStatus =
     \<lparr>UsedResources = Map.empty, AdmittedWorkloads = 0, PendingWorkloads = 0\<rparr>"

definition zero_ClusterQueue :: "'q ClusterQueue" where
  "zero_ClusterQueue =
     \<lparr>cq_Name = [], cq_Spec = zero_ClusterQueueSpec, cq_Status = zero_ClusterQueueStatus\<rparr>"

section \<open>The reconciler and its collaborators\<close>

text \<open>
  Requests the controller sends to the API server through \<^verbatim>\<open>r.client\<close>, and calls
  it makes on the cache and on the queue manager. Both are recorded in the order they
  are made, so that a theorem can say which calls an operation makes.
\<close>

datatype 'q client_call =
    ListCall
  | UpdateCall ResourceFlavor
  | GetCall string
  | StatusUpdateCall "'q ClusterQueue"

datatype 'q sync_call =
    AddClusterQueue "'q ClusterQueue"
  | UpdateClusterQueue "'q ClusterQueue"
  | DeleteClusterQueue "'q ClusterQueue"

text \<open>
  The state the receiver \<^verbatim>\<open>r *ClusterQueueReconciler\<close> works on: what the API
  server stores, the calls made so far, the messages passed to \<^verbatim>\<open>log.Error\<close>, and,
  since the collaborators are opaque, what each of their calls will answer. The
  \<open>n\<close>-th call of a kind (counting from 0) fails with \<open>e\<close> when the corresponding
  table gives \<open>Some e\<close> at \<open>n\<close>; every sequence of outcomes is such a table.
  \<open>range_order\<close> is the order in which the Go runtime visits the keys of a map, which
  the language leaves open. Informational log lines (\<^verbatim>\<open>log.V(2).Info\<close>) are left
  out.
\<close>

record 'q reconciler =
  flavors :: "ResourceFlavor list"
  queues :: "string \<rightharpoonup> 'q ClusterQueue"
  calls :: "'q client_call list"
  list_err :: "nat \<Rightarrow> error option"
  update_err :: "nat \<Rightarrow> error option"
  get_err :: "nat \<Rightarrow> error option"
  status_err :: "nat \<Rightarrow> error option"
  logged :: "string list"
  cache_calls :: "'q sync_call list"
  cache_err :: "nat \<Rightarrow> error option"
  cache_usage :: "'q ClusterQueue \<Rightarrow> error + (string \<rightharpoonup> int) \<times> int"
  qManager_calls :: "'q sync_call list"
  qManager_err :: "nat \<Rightarrow> error option"
  qManager_pending :: "'q ClusterQueue \<Rightarrow> 32 word"
  range_order :: "string list \<Rightarrow> string list"

fun isList :: "'q client_call \<Rightarrow> bool" where
  "isList ListCall = True"
| "isList _ = False"

fun isUpdate :: "'q client_call \<Rightarrow> bool" where
  "isUpdate (UpdateCall _) = True"
| "isUpdate _ = False"

fun isGet :: "'q client_call \<Rightarrow> bool" where
  "isGet (GetCall _) = True"
| "isGet _ = False"

fun isStatusUpdate :: "'q client_call \<Rightarrow> bool" where
  "isStatusUpdate (StatusUpdateCall _) = True"
| "isStatusUpdate _ = False"

definition count_calls :: "('q client_call \<Rightarrow> bool) \<Rightarrow> 'q reconciler \<Rightarrow> nat" where
  "count_calls p r = length (filter p (calls r))"

definition log_Error :: "string \<Rightarrow> 'q reconciler \<Rightarrow> 'q reconciler" where
  "log_Error msg r = r\<lparr>logged := logged r @ [msg]\<rparr>"

subsection \<open>The API server\<close>

text \<open>\<^verbatim>\<open>r.client.List(ctx, &resourceFlavors)\<close>: the stored flavors, or an error.\<close>

definition client_List ::
  "'q reconciler \<Rightarrow> (error + ResourceFlavor list) \<times> 'q reconciler" where
  "client_List r =
     (let r' = r\<lparr>calls := calls r @ [ListCall]\<rparr> in
      case list_err r (count_calls isList r) of
        Some e \<Rightarrow> (Inl e, r')
      | None \<Rightarrow> (Inr (flavors r), r'))"

text \<open>
  \<^verbatim>\<open>r.client.Update(ctx, rf)\<close>: replaces the stored flavor of that name. The
  request fails when the table says so, and with a not-found error when no flavor of
  that name is stored; a failed request leaves the store as it is.
\<close>

definition client_Update ::
  "'q reconciler \<Rightarrow> ResourceFlavor \<Rightarrow> error option \<times> 'q reconciler" where
  "client_Update r rf =
     (let r' = r\<lparr>calls := calls r @ [UpdateCall rf]\<rparr> in
      case update_err r (count_calls isUpdate r) of
        Some e \<Rightarrow> (Some e, r')
      | None \<Rightarrow>
          if rf_Name rf \<in> set (map rf_Name (flavors r))
          then (None, r'\<lparr>flavors :=
                  map (\<lambda>x. if rf_Name x = rf_Name rf then rf else x) (flavors r)\<rparr>)
          else (Some NotFound, r'))"

text \<open>\<^verbatim>\<open>r.client.Get(ctx, req.NamespacedName, &cqObj)\<close>.\<close>

definition client_Get ::
  "'q reconciler \<Rightarrow> string \<Rightarrow> (error + 'q ClusterQueue) \<times> 'q reconciler" where
  "client_Get r name =
     (let r' = r\<lparr>calls := calls r @ [GetCall name]\<rparr> in
      case get_err r (count_calls isGet r) of
        Some e \<Rightarrow> (Inl e, r')
      | None \<Rightarrow>
          (case queues r name of
             None \<Rightarrow> (Inl NotFound, r')
           | Some cq \<Rightarrow> (Inr cq, r')))"

text \<open>
  \<^verbatim>\<open>r.client.Status().Update(ctx, &cqObj)\<close>: a write of the status subresource;
  on success the stored object of that name takes the status sent.
\<close>

definition client_Status_Update ::
  "'q reconciler \<Rightarrow> 'q ClusterQueue \<Rightarrow> error option \<times> 'q reconciler" where
  "client_Status_Update r cq =
     (let r' = r\<lparr>calls := calls r @ [StatusUpdateCall cq]\<rparr> in
      case status_err r (count_calls isStatusUpdate r) of
        Some e \<Rightarrow> (Some e, r')
      | None \<Rightarrow>
          (case queues r (cq_Name cq) of
             None \<Rightarrow> (Some NotFound, r')
           | Some stored \<Rightarrow>
               (None, r'\<lparr>queues :=
                  (queues r)(cq_Name cq \<mapsto> stored\<lparr>cq_Status := cq_Status cq\<rparr>)\<rparr>)))"

text \<open>
  \<^verbatim>\<open>client.IgnoreNotFound\<close> of controller-runtime: nil for a not-found error, the
  error itself otherwise.
\<close>

definition IgnoreNotFound :: "error option \<Rightarrow> error option" where
  "IgnoreNotFound err = (if err = Some NotFound then None else err)"

subsection \<open>The cache and the queue manager\<close>

definition cache_AddClusterQueue ::
  "'q reconciler \<Rightarrow> 'q ClusterQueue \<Rightarrow> error option \<times> 'q reconciler" where
  "cache_AddClusterQueue r cq =
     (cache_err r (length (cache_calls r)),
      r\<lparr>cache_calls := cache_calls r @ [AddClusterQueue cq]\<rparr>)"

definition cache_UpdateClusterQueue ::
  "'q reconciler \<Rightarrow> 'q ClusterQueue \<Rightarrow> error option \<times> 'q reconciler" where
  "cache_UpdateClusterQueue r cq =
     (cache_err r (length (cache_calls r)),
      r\<lparr>cache_calls := cache_calls r @ [UpdateClusterQueue cq]\<rparr>)"

definition cache_DeleteClusterQueue ::
  "'q reconciler \<Rightarrow> 'q ClusterQueue \<Rightarrow> 'q reconciler" where
  "cache_DeleteClusterQueue r cq =
     r\<lparr>cache_calls := cache_calls r @ [DeleteClusterQueue cq]\<rparr>"

definition qManager_AddClusterQueue ::
  "'q reconciler \<Rightarrow> 'q ClusterQueue \<Rightarrow> error option \<times> 'q reconciler" where
  "qManager_AddClusterQueue r cq =
     (qManager_err r (length (qManager_calls r)),
      r\<lparr>qManager_calls := qManager_calls r @ [AddClusterQueue cq]\<rparr>)"

definition qManager_UpdateClusterQueue ::
  "'q reconciler \<Rightarrow> 'q ClusterQueue \<Rightarrow> error option \<times> 'q reconciler" where
  "qManager_UpdateClusterQueue r cq =
     (qManager_err r (length (qManager_calls r)),
      r\<lparr>qManager_calls := qManager_calls r @ [UpdateClusterQueue cq]\<rparr>)"

definition qManager_DeleteClusterQueue ::
  "'q reconciler \<Rightarrow> 'q ClusterQueue \<Rightarrow> 'q reconciler" where
  "qManager_DeleteClusterQueue r cq =
     r\<lparr>qManager_calls := qManager_calls r @ [DeleteClusterQueue cq]\<rparr>"

section \<open>Reference synchronization\<close>

text \<open>
  The two mutations of a flavor's back-reference index.
  \<^verbatim>\<open>delete(rf.ClusterQueues, name)\<close> does nothing on a nil map; before
  \<^verbatim>\<open>rf.ClusterQueues[name] = ""\<close> a nil map is replaced by an empty one.
\<close>

definition delete_ref :: "string \<Rightarrow> ResourceFlavor \<Rightarrow> ResourceFlavor" where
  "delete_ref name rf =
     rf\<lparr>rf_ClusterQueues :=
          (case rf_ClusterQueues rf of
             None \<Rightarrow> None
           | Some m \<Rightarrow> Some (m(name := None)))\<rparr>"

definition insert_ref :: "string \<Rightarrow> ResourceFlavor \<Rightarrow> ResourceFlavor" where
  "insert_ref name rf =
     rf\<lparr>rf_ClusterQueues :=
          Some ((case rf_ClusterQueues rf of None \<Rightarrow> Map.empty | Some m \<Rightarrow> m)
                (name \<mapsto> []))\<rparr>"

definition mutate_ref :: "bool \<Rightarrow> string \<Rightarrow> ResourceFlavor \<Rightarrow> ResourceFlavor" where
  "mutate_ref deletion name rf =
     (if deletion then delete_ref name rf else insert_ref name rf)"

text \<open>The referencing set of a flavor: the keys of its index.\<close>

definition referencing :: "ResourceFlavor \<Rightarrow> string set" where
  "referencing rf = (case rf_ClusterQueues rf of None \<Rightarrow> {} | Some m \<Rightarrow> dom m)"

text \<open>
  \<^verbatim>\<open>rfCache[rf.Name] = &resourceFlavors.Items[i]\<close> for every listed item, a later
  item of the same name replacing an earlier one.
\<close>

definition rfCache_of :: "ResourceFlavor list \<Rightarrow> (string \<rightharpoonup> ResourceFlavor)" where
  "rfCache_of items = fold (\<lambda>rf m. m(rf_Name rf \<mapsto> rf)) items Map.empty"

text \<open>
  The loop \<^verbatim>\<open>for k := range objs\<close> of \<^verbatim>\<open>updateResourceFlavorReferences\<close>, over the
  keys in the order they are visited. A key is visited once and the pointers of two
  keys are two items, so the mutation of a listed item in memory is seen by no later
  round; the item is therefore read from \<open>rfCache\<close> as listed. A failed update and a
  missing flavor are logged, and the loop goes on.
\<close>

fun range_objs ::
  "(string \<rightharpoonup> ResourceFlavor) \<Rightarrow> string \<Rightarrow> bool \<Rightarrow> string list \<Rightarrow>
   'q reconciler \<Rightarrow> 'q reconciler" where
  "range_objs rfCache name deletion [] r = r"
| "range_objs rfCache name deletion (k # ks) r =
     (case rfCache k of
        Some rf \<Rightarrow>
          (case client_Update r (mutate_ref deletion name rf) of
             (Some e, r1) \<Rightarrow>
               range_objs rfCache name deletion ks
                 (log_Error ''Fail to update resource flavor reference'' r1)
           | (None, r1) \<Rightarrow> range_objs rfCache name deletion ks r1)
      | None \<Rightarrow>
          range_objs rfCache name deletion ks
            (log_Error ''Cannot find resource flavor'' r))"

definition updateResourceFlavorReferences ::
  "'q reconciler \<Rightarrow> 'q ClusterQueue \<Rightarrow> string list \<Rightarrow> bool \<Rightarrow>
   error option \<times> 'q reconciler" where
  "updateResourceFlavorReferences r cq objs deletion =
     (case client_List r of
        (Inl err, r1) \<Rightarrow> (Some err, r1)
      | (Inr items, r1) \<Rightarrow>
          (None, range_objs (rfCache_of items) (cq_Name cq) deletion objs r1))"

text \<open>
  The keys of the map built from a spec by
  \<^verbatim>\<open>for _, res := range cq.Spec.Resources { for _, f := range res.Flavors { ... } }\<close>.
\<close>

definition flavor_keys :: "'q ClusterQueue \<Rightarrow> string list" where
  "flavor_keys cq =
     remdups (concat (map (\<lambda>res. map f_Name (elems (res_Flavors res)))
                          (elems (Resources (cq_Spec cq)))))"

definition needRemove :: "'q ClusterQueue \<Rightarrow> 'q ClusterQueue \<Rightarrow> string list" where
  "needRemove oldCQ cq = filter (\<lambda>k. k \<notin> set (flavor_keys cq)) (flavor_keys oldCQ)"

definition needAdd :: "'q ClusterQueue \<Rightarrow> 'q ClusterQueue \<Rightarrow> string list" where
  "needAdd oldCQ cq = filter (\<lambda>k. k \<notin> set (flavor_keys oldCQ)) (flavor_keys cq)"

definition updateReferences ::
  "'q reconciler \<Rightarrow> 'q ClusterQueue \<Rightarrow> 'q ClusterQueue \<Rightarrow> error option \<times> 'q reconciler" where
  "updateReferences r oldCQ cq =
     (case updateResourceFlavorReferences r cq
             (range_order r (needRemove oldCQ cq)) True of
        (Some err, r1) \<Rightarrow> (Some err, r1)
      | (None, r1) \<Rightarrow>
          (case updateResourceFlavorReferences r1 cq
                  (range_order r1 (needAdd oldCQ cq)) False of
             (Some err, r2) \<Rightarrow> (Some err, r2)
           | (None, r2) \<Rightarrow> (None, r2)))"

section \<open>Event handlers\<close>

text \<open>
  Each handler returns whether the event is let through to the reconcile queue, and
  the state it leaves. A payload that is not a ClusterQueue passes unexamined.
\<close>

definition Create :: "'q reconciler \<Rightarrow> 'q Object \<Rightarrow> bool \<times> 'q reconciler" where
  "Create r obj =
     (case obj of
        ClusterQueueObject cq \<Rightarrow>
          (case updateReferences r zero_ClusterQueue cq of
             (Some err, r1) \<Rightarrow>
               (False, log_Error ''Failed to update resource flavor reference'' r1)
           | (None, r1) \<Rightarrow>
               (case cache_AddClusterQueue r1 cq of
                  (e1, r2) \<Rightarrow>
                    (let r3 = (case e1 of
                                 Some _ \<Rightarrow> log_Error ''Failed to add clusterQueue to cache'' r2
                               | None \<Rightarrow> r2)
                     in case qManager_AddClusterQueue r3 cq of
                          (e2, r4) \<Rightarrow>
                            (True,
                             case e2 of
                               Some _ \<Rightarrow>
                                 log_Error ''Failed to add clusterQueue to queue manager'' r4
                             | None \<Rightarrow> r4))))
      | _ \<Rightarrow> (True, r))"

definition Delete :: "'q reconciler \<Rightarrow> 'q Object \<Rightarrow> bool \<times> 'q reconciler" where
  "Delete r obj =
     (case obj of
        ClusterQueueObject cq \<Rightarrow>
          (let newCq = cq\<lparr>cq_Spec := zero_ClusterQueueSpec\<rparr> in
           case updateReferences r cq newCq of
             (Some err, r1) \<Rightarrow>
               (False, log_Error ''Fail to remove resource flavor reference'' r1)
           | (None, r1) \<Rightarrow>
               (True, qManager_DeleteClusterQueue (cache_DeleteClusterQueue r1 cq) cq))
      | _ \<Rightarrow> (True, r))"

text \<open>
  The steps of \<^verbatim>\<open>Update\<close> after the reference synchronization: the cache and the
  queue manager take the new object, and a failure of either is logged.
\<close>

definition update_collaborators :: "'q reconciler \<Rightarrow> 'q ClusterQueue \<Rightarrow> 'q reconciler" where
  "update_collaborators r cq =
     (case cache_UpdateClusterQueue r cq of
        (e1, r1) \<Rightarrow>
          (let r2 = (case e1 of
                       Some _ \<Rightarrow> log_Error ''Failed to update clusterQueue in cache'' r1
                     | None \<Rightarrow> r1)
           in case qManager_UpdateClusterQueue r2 cq of
                (e2, r3) \<Rightarrow>
                  (case e2 of
                     Some _ \<Rightarrow>
                       log_Error ''Failed to update clusterQueue in queue manager'' r3
                   | None \<Rightarrow> r3)))"

definition Update ::
  "'q reconciler \<Rightarrow> 'q Object \<Rightarrow> 'q Object \<Rightarrow> bool \<times> 'q reconciler" where
  "Update r objectOld objectNew =
     (case objectNew of
        ClusterQueueObject cq \<Rightarrow>
          (case objectOld of
             ClusterQueueObject oldCQ \<Rightarrow>
               if Resources (cq_Spec oldCQ) \<noteq> Resources (cq_Spec cq)
               then (case updateReferences r oldCQ cq of
                       (Some err, r1) \<Rightarrow>
                         (False, log_Error ''Fail to update resource flavor reference'' r1)
                     | (None, r1) \<Rightarrow> (True, update_collaborators r1 cq))
               else (True, update_collaborators r cq)
           | _ \<Rightarrow> (True, update_collaborators r cq))
      | _ \<Rightarrow> (True, r))"

definition Generic :: "'q reconciler \<Rightarrow> 'q Object \<Rightarrow> bool \<times> 'q reconciler" where
  "Generic r obj = (True, r)"

section \<open>The workload handler\<close>

text \<open>
  \<^verbatim>\<open>cqWorkloadHandler\<close> holds the queue manager, of which it uses
  \<^verbatim>\<open>ClusterQueueForWorkload\<close> only: a name and whether a queue holds the workload.
  A reconcile request carries the name of a cluster queue.
\<close>

record cqWorkloadHandler =
  ClusterQueueForWorkload :: "Workload \<Rightarrow> string \<times> bool"

record Request =
  req_Name :: string

definition requestForWorkloadClusterQueue ::
  "cqWorkloadHandler \<Rightarrow> Workload \<Rightarrow> Request option" where
  "requestForWorkloadClusterQueue h w =
     (case w_Admission w of
        Some a \<Rightarrow> Some \<lparr>req_Name = adm_ClusterQueue a\<rparr>
      | None \<Rightarrow>
          (case ClusterQueueForWorkload h w of
             (name, ok) \<Rightarrow> if \<not> ok then None else Some \<lparr>req_Name = name\<rparr>))"

text \<open>
  \<^verbatim>\<open>Generic\<close> of the handler. The work queue is the list of the
  \<^verbatim>\<open>AddAfter\<close> calls made on it, each a request and its delay. The delay
  \<^verbatim>\<open>constants.UpdatesBatchPeriod\<close> is declared in another package and is a
  parameter here. The type assertion \<^verbatim>\<open>e.Object.(*kueue.Workload)\<close> panics on any
  other payload: the result is \<open>None\<close> then.
\<close>

definition cqWorkloadHandler_Generic ::
  "nat \<Rightarrow> cqWorkloadHandler \<Rightarrow> 'q Object \<Rightarrow> (Request \<times> nat) list \<Rightarrow>
   (Request \<times> nat) list option" where
  "cqWorkloadHandler_Generic UpdatesBatchPeriod h obj q =
     (case obj of
        WorkloadObject w \<Rightarrow>
          (case requestForWorkloadClusterQueue h w of
             Some req \<Rightarrow> Some (q @ [(req, UpdatesBatchPeriod)])
           | None \<Rightarrow> Some q)
      | _ \<Rightarrow> None)"

section \<open>Reconcile\<close>

text \<open>
  \<^verbatim>\<open>Status\<close>: the usage and the number of admitted workloads come from the
  cache, which may not know the queue; the number of pending workloads comes from the
  queue manager.
\<close>

definition Status ::
  "'q reconciler \<Rightarrow> 'q ClusterQueue \<Rightarrow> (error + ClusterQueueStatus) \<times> 'q reconciler" where
  "Status r cq =
     (case cache_usage r cq of
        Inl err \<Rightarrow> (Inl err, log_Error ''Failed getting usage from cache'' r)
      | Inr (usage, workloads) \<Rightarrow>
          (Inr \<lparr>UsedResources = usage,
                AdmittedWorkloads = word_of_int workloads,
                PendingWorkloads = qManager_pending r cq\<rparr>, r))"

text \<open>
  \<^verbatim>\<open>equality.Semantic.DeepEqual\<close> of apimachinery on two statuses: quantities are
  compared by value and a nil map equals an empty one. Used resources are a HOL map
  here, which has neither an insertion order nor a nil value, and quantities are
  numbers, so the comparison is the equality of the two values.
\<close>

definition Semantic_DeepEqual :: "ClusterQueueStatus \<Rightarrow> ClusterQueueStatus \<Rightarrow> bool" where
  "Semantic_DeepEqual a b =
     (UsedResources a = UsedResources b \<and>
      AdmittedWorkloads a = AdmittedWorkloads b \<and>
      PendingWorkloads a = PendingWorkloads b)"

text \<open>
  \<^verbatim>\<open>Reconcile\<close> returns \<^verbatim>\<open>ctrl.Result{}\<close> on every path; only the error is kept.
\<close>

definition Reconcile :: "'q reconciler \<Rightarrow> string \<Rightarrow> error option \<times> 'q reconciler" where
  "Reconcile r name =
     (case client_Get r name of
        (Inl err, r1) \<Rightarrow> (IgnoreNotFound (Some err), r1)
      | (Inr cqObj, r1) \<Rightarrow>
          (case Status r1 cqObj of
             (Inl err, r2) \<Rightarrow>
               (Some err, log_Error ''Failed getting status from cache'' r2)
           | (Inr status, r2) \<Rightarrow>
               if \<not> Semantic_DeepEqual status (cq_Status cqObj)
               then (case client_Status_Update r2 (cqObj\<lparr>cq_Status := status\<rparr>) of
                       (err, r3) \<Rightarrow> (IgnoreNotFound err, r3))
               else (None, r2)))"

section \<open>Notions used to state the properties\<close>

text \<open>
  The definitions of this section are not part of the controller. They name what the
  theorems speak about: the requests an operation has sent, the flavor a
  synchronization is meant to leave, and the relations between the store before and
  after.
\<close>

text \<open>The status writes among the requests sent so far.\<close>

definition status_writes :: "'q reconciler \<Rightarrow> 'q ClusterQueue list" where
  "status_writes r =
     concat (map (\<lambda>c. case c of StatusUpdateCall cq \<Rightarrow> [cq] | _ \<Rightarrow> []) (calls r))"

text \<open>
  The flavors sent in update requests between a state \<open>r\<close> and a later state \<open>r'\<close>,
  in the order they were sent.
\<close>

fun update_of :: "'q client_call \<Rightarrow> ResourceFlavor list" where
  "update_of (UpdateCall rf) = [rf]"
| "update_of _ = []"

definition new_updates :: "'q reconciler \<Rightarrow> 'q reconciler \<Rightarrow> ResourceFlavor list" where
  "new_updates r r' = concat (map update_of (drop (length (calls r)) (calls r')))"



text \<open>
  The entry of a flavor's index for a queue name, a nil index having none; and the
  relation of two flavors of the same name that agree on the entry of every queue name
  but \<open>n\<close>.
\<close>

definition entry :: "ResourceFlavor \<Rightarrow> string \<Rightarrow> string option" where
  "entry rf m = (case rf_ClusterQueues rf of None \<Rightarrow> None | Some f \<Rightarrow> f m)"

definition same_others :: "string \<Rightarrow> ResourceFlavor \<Rightarrow> ResourceFlavor \<Rightarrow> bool" where
  "same_others n x y =
     (rf_Name y = rf_Name x \<and> (\<forall>m. m \<noteq> n \<longrightarrow> entry y m = entry x m))"

text \<open>
  The parts of the state that reference synchronization never writes: the outcome
  tables, the visiting order, the stored queues and the calls made on the cache and on
  the queue manager.
\<close>

definition same_tables :: "'q reconciler \<Rightarrow> 'q reconciler \<Rightarrow> bool" where
  "same_tables r r' =
     (list_err r' = list_err r \<and> update_err r' = update_err r \<and>
      get_err r' = get_err r \<and> status_err r' = status_err r \<and>
      cache_err r' = cache_err r \<and> qManager_err r' = qManager_err r \<and>
      cache_usage r' = cache_usage r \<and> qManager_pending r' = qManager_pending r \<and>
      range_order r' = range_order r \<and> queues r' = queues r \<and>
      cache_calls r' = cache_calls r \<and> qManager_calls r' = qManager_calls r)"

text \<open>
  The state right after a list call, and the state between the two phases of
  \<^verbatim>\<open>updateReferences\<close>.
\<close>

definition listed :: "'q reconciler \<Rightarrow> 'q reconciler" where
  "listed r = r\<lparr>calls := calls r @ [ListCall]\<rparr>"

definition removal_phase ::
  "'q reconciler \<Rightarrow> 'q ClusterQueue \<Rightarrow> 'q ClusterQueue \<Rightarrow> 'q reconciler" where
  "removal_phase r oldCQ cq =
     snd (updateResourceFlavorReferences r cq (range_order r (needRemove oldCQ cq)) True)"

text \<open>
  The flavors the loop over the keys \<open>ks\<close> sends, in order: the listed item of every
  key that has one, mutated.
\<close>

definition issued ::
  "(string \<rightharpoonup> ResourceFlavor) \<Rightarrow> string \<Rightarrow> bool \<Rightarrow> string list \<Rightarrow> ResourceFlavor list" where
  "issued rfCache name deletion ks =
     List.map_filter (\<lambda>k. map_option (mutate_ref deletion name) (rfCache k)) ks"

text \<open>
  A cache of listed items is keyed by the items' names. A flavor \<open>y\<close> stored after
  the loop over keys of \<open>S\<close> is the flavor \<open>x\<close> stored before at the same place, or
  the mutated item listed under the name of \<open>x\<close>; with one flavor per name that item
  is \<open>x\<close>.
\<close>

definition names_ok :: "(string \<rightharpoonup> ResourceFlavor) \<Rightarrow> bool" where
  "names_ok C = (\<forall>k rf. C k = Some rf \<longrightarrow> rf_Name rf = k)"

definition touched ::
  "(string \<rightharpoonup> ResourceFlavor) \<Rightarrow> string \<Rightarrow> bool \<Rightarrow> string set \<Rightarrow>
   ResourceFlavor \<Rightarrow> ResourceFlavor \<Rightarrow> bool" where
  "touched C n d S x y =
     (y = x \<or> (rf_Name x \<in> S \<and> (\<exists>rf. C (rf_Name x) = Some rf \<and> y = mutate_ref d n rf)))"

definition phase_rel ::
  "string \<Rightarrow> bool \<Rightarrow> string set \<Rightarrow> ResourceFlavor \<Rightarrow> ResourceFlavor \<Rightarrow> bool" where
  "phase_rel n d S x y = (y = x \<or> (rf_Name x \<in> S \<and> y = mutate_ref d n x))"

section \<open>Example states\<close>

text \<open>
  Concrete inputs for the witnesses and counterexamples: a flavor referenced by given
  queues, a queue whose single resource group lists given flavors, and a reconciler
  with an empty store whose collaborators never fail and whose maps are visited in the
  order the keys were entered; each example changes the fields it needs.
\<close>

definition ex_flavor :: "string \<Rightarrow> string list \<Rightarrow> ResourceFlavor" where
  "ex_flavor name qs = \<lparr>rf_Name = name, rf_ClusterQueues = Some (map_of (map (\<lambda>q. (q, [])) qs))\<rparr>"

definition ex_queue :: "string \<Rightarrow> string list \<Rightarrow> unit ClusterQueue" where
  "ex_queue name fs =
     \<lparr>cq_Name = name,
      cq_Spec = \<lparr>Resources = Some [\<lparr>res_Name = ''cpu'',
                   res_Flavors = Some (map (\<lambda>f. \<lparr>f_Name = f, f_Quota = ()\<rparr>) fs)\<rparr>]\<rparr>,
      cq_Status = zero_ClusterQueueStatus\<rparr>"

definition ex_reconciler :: "unit reconciler" where
  "ex_reconciler =
     \<lparr>flavors = [], queues = Map.empty, calls = [],
      list_err = (\<lambda>n. None), update_err = (\<lambda>n. None), get_err = (\<lambda>n. None),
      status_err = (\<lambda>n. None), logged = [],
      cache_calls = [], cache_err = (\<lambda>n. None), cache_usage = (\<lambda>cq. Inl NotFound),
      qManager_calls = [], qManager_err = (\<lambda>n. None), qManager_pending = (\<lambda>cq. 0),
      range_order = (\<lambda>ks. ks)\<rparr>"




definition ex_two :: "unit reconciler" where
  "ex_two =
     ex_reconciler\<lparr>flavors := [ex_flavor ''a'' [''q'', ''p''], ex_flavor ''b'' [''p'']]\<rparr>"

definition ex_create :: "unit reconciler" where
  "ex_create =
     ex_reconciler\<lparr>flavors := [ex_flavor ''a'' []],
                    cache_err := (\<lambda>n. Some (Other ''cache'')),
                    qManager_err := (\<lambda>n. Some (Other ''queue manager''))\<rparr>"

definition ex_delete :: "unit reconciler" where
  "ex_delete =
     ex_reconciler\<lparr>flavors := [ex_flavor ''a'' [''q'']],
                    list_err := (\<lambda>n. if n = 0 then Some (Other ''list'') else None),
                    cache_calls := [AddClusterQueue (ex_queue ''q'' [''a''])],
                    qManager_calls := [AddClusterQueue (ex_queue ''q'' [''a''])]\<rparr>"

definition ex_handler :: cqWorkloadHandler where
  "ex_handler =
     \<lparr>ClusterQueueForWorkload =
        (\<lambda>w. if w_Name w = ''pending'' then (''cq-pending'', True) else ([], False))\<rparr>"

definition ex_persisted :: "unit ClusterQueue" where
  "ex_persisted =
     (ex_queue ''q'' [])\<lparr>cq_Status :=
        \<lparr>UsedResources = [''cpu'' \<mapsto> 2, ''memory'' \<mapsto> 4],
         AdmittedWorkloads = 1, PendingWorkloads = 3\<rparr>\<rparr>"

definition ex_computed :: "32 word \<Rightarrow> ClusterQueueStatus" where
  "ex_computed p =
     \<lparr>UsedResources = [''memory'' \<mapsto> 4, ''cpu'' \<mapsto> 2],
      AdmittedWorkloads = 1, PendingWorkloads = p\<rparr>"

definition ex_reconcile :: "32 word \<Rightarrow> error option \<Rightarrow> unit reconciler" where
  "ex_reconcile p e =
     ex_reconciler\<lparr>queues := [''q'' \<mapsto> ex_persisted],
                    cache_usage := (\<lambda>cq. Inr ([''memory'' \<mapsto> 4, ''cpu'' \<mapsto> 2], 1)),
                    qManager_pending := (\<lambda>cq. p),
                    status_err := (\<lambda>n. e)\<rparr>"

definition ex_swap :: "unit reconciler" where
  "ex_swap = ex_reconciler\<lparr>flavors := [ex_flavor ''a'' [''q''], ex_flavor ''b'' []]\<rparr>"

definition ex_conflict :: "unit reconciler" where
  "ex_conflict =
     ex_reconciler\<lparr>flavors := [ex_flavor ''a'' [''q''], ex_flavor ''b'' [''q'']],
                    update_err := (\<lambda>n. if n = 0 then Some Conflict else None)\<rparr>"

definition ex_relist :: "unit reconciler" where
  "ex_relist =
     ex_reconciler\<lparr>flavors := [ex_flavor ''a'' [''q'']],
                    list_err := (\<lambda>n. if n = 1 then Some (Other ''list'') else None)\<rparr>"

section \<open>Lemmas\<close>

subsection \<open>What the primitive calls change\<close>

lemma same_tables_refl: "same_tables r r"
  by (simp add: same_tables_def)

lemma same_tables_trans: "same_tables r r1 \<Longrightarrow> same_tables r1 r2 \<Longrightarrow> same_tables r r2"
  by (simp add: same_tables_def)

lemma log_Error_same: "same_tables r (log_Error m r)"
  by (simp add: same_tables_def log_Error_def)

lemma log_Error_calls: "calls (log_Error m r) = calls r"
  by (simp add: log_Error_def)

lemma log_Error_flavors: "flavors (log_Error m r) = flavors r"
  by (simp add: log_Error_def)

lemma client_Update_same: "client_Update r rf = (e, r1) \<Longrightarrow> same_tables r r1"
  by (auto simp: client_Update_def Let_def same_tables_def split: option.splits if_splits)

lemma client_Update_calls:
  "client_Update r rf = (e, r1) \<Longrightarrow> calls r1 = calls r @ [UpdateCall rf]"
  by (auto simp: client_Update_def Let_def split: option.splits if_splits)

subsection \<open>The loop over the keys\<close>

lemma range_objs_same: "same_tables r (range_objs C n d ks r)"
proof (induction ks arbitrary: r)
  case Nil
  show ?case by (simp add: same_tables_refl)
next
  case (Cons k ks)
  show ?case
  proof (cases "C k")
    case None
    then show ?thesis
      using same_tables_trans [OF log_Error_same Cons.IH] by simp
  next
    case (Some rf)
    obtain e r1 where u: "client_Update r (mutate_ref d n rf) = (e, r1)"
      by (cases "client_Update r (mutate_ref d n rf)")
    have s1: "same_tables r r1" using client_Update_same [OF u] .
    show ?thesis
    proof (cases e)
      case None
      then show ?thesis using Some u same_tables_trans [OF s1 Cons.IH] by simp
    next
      case (Some a)
      have "same_tables r (log_Error ''Fail to update resource flavor reference'' r1)"
        using same_tables_trans [OF s1 log_Error_same] .
      from same_tables_trans [OF this Cons.IH] show ?thesis
        using \<open>C k = Some rf\<close> u Some by simp
    qed
  qed
qed

lemma range_objs_calls:
  "calls (range_objs C n d ks r) = calls r @ map UpdateCall (issued C n d ks)"
proof (induction ks arbitrary: r)
  case Nil
  show ?case by (simp add: issued_def)
next
  case (Cons k ks)
  show ?case
  proof (cases "C k")
    case None
    then show ?thesis
      by (simp add: Cons.IH issued_def log_Error_calls)
  next
    case (Some rf)
    obtain e r1 where u: "client_Update r (mutate_ref d n rf) = (e, r1)"
      by (cases "client_Update r (mutate_ref d n rf)")
    show ?thesis
      using Some u client_Update_calls [OF u]
      by (cases e) (simp_all add: Cons.IH issued_def log_Error_calls)
  qed
qed

lemma mutate_ref_name: "rf_Name (mutate_ref d n rf) = rf_Name rf"
  by (simp add: mutate_ref_def delete_ref_def insert_ref_def)

lemma client_Update_flavors:
  "client_Update r rf = (e, r1) \<Longrightarrow>
   flavors r1 = flavors r \<or>
   flavors r1 = map (\<lambda>x. if rf_Name x = rf_Name rf then rf else x) (flavors r)"
  by (auto simp: client_Update_def Let_def split: option.splits if_splits)



lemma touched_names: "names_ok C \<Longrightarrow> touched C n d S x y \<Longrightarrow> rf_Name y = rf_Name x"
  by (auto simp: touched_def names_ok_def mutate_ref_name)

lemma touched_trans:
  assumes ok: "names_ok C" and a: "touched C n d S x y" and b: "touched C n d T y z"
  shows "touched C n d (S \<union> T) x z"
proof -
  have nm: "rf_Name y = rf_Name x" using touched_names [OF ok a] .
  show ?thesis using a b nm by (auto simp: touched_def)
qed

lemma list_all2_map_self: "(\<And>x. x \<in> set xs \<Longrightarrow> P x (f x)) \<Longrightarrow> list_all2 P xs (map f xs)"
  by (induction xs) auto

lemma client_Update_touched:
  assumes u: "client_Update r (mutate_ref d n rf) = (e, r1)" and c: "C k = Some rf"
    and ok: "names_ok C"
  shows "list_all2 (touched C n d {k}) (flavors r) (flavors r1)"
proof -
  have nm: "rf_Name (mutate_ref d n rf) = k"
    using c ok by (simp add: names_ok_def mutate_ref_name)
  from client_Update_flavors [OF u] show ?thesis
  proof
    assume "flavors r1 = flavors r"
    then show ?thesis by (simp add: list_all2_refl touched_def)
  next
    assume f: "flavors r1 =
      map (\<lambda>x. if rf_Name x = rf_Name (mutate_ref d n rf) then mutate_ref d n rf else x)
        (flavors r)"
    show ?thesis
      unfolding f nm
      by (rule list_all2_map_self) (auto simp: touched_def c)
  qed
qed

lemma range_objs_touched:
  fixes r :: "'q reconciler"
  shows "names_ok C \<Longrightarrow>
   list_all2 (touched C n d (set ks)) (flavors r) (flavors (range_objs C n d ks r))"
proof (induction ks arbitrary: r)
  case Nil
  show ?case by (simp add: list_all2_refl touched_def)
next
  case (Cons k ks)
  note ok = Cons.prems
  have mono: "list_all2 (touched C n d (set ks)) (flavors r') (flavors (range_objs C n d ks r'))"
    for r' :: "'q reconciler" using Cons.IH [OF ok] .
  show ?case
  proof (cases "C k")
    case None
    have "list_all2 (touched C n d (set ks)) (flavors r)
            (flavors (range_objs C n d (k # ks) r))"
      using mono [of "log_Error ''Cannot find resource flavor'' r"] None
      by (simp add: log_Error_flavors)
    then show ?thesis
      by (rule list_all2_mono) (auto simp: touched_def)
  next
    case (Some rf)
    obtain e r1 where u: "client_Update r (mutate_ref d n rf) = (e, r1)"
      by (cases "client_Update r (mutate_ref d n rf)")
    define r2 where "r2 = (case e of None \<Rightarrow> r1
        | Some a \<Rightarrow> log_Error ''Fail to update resource flavor reference'' r1)"
    have f2: "flavors r2 = flavors r1"
      by (cases e) (simp_all add: r2_def log_Error_flavors)
    have step: "list_all2 (touched C n d {k}) (flavors r) (flavors r2)"
      using client_Update_touched [OF u Some ok] f2 by simp
    have eq: "range_objs C n d (k # ks) r = range_objs C n d ks r2"
      using Some u by (cases e) (simp_all add: r2_def)
    have "list_all2 (touched C n d ({k} \<union> set ks)) (flavors r)
            (flavors (range_objs C n d ks r2))"
      using step mono [of r2]
      by (rule list_all2_trans [rotated]) (rule touched_trans [OF ok])
    then show ?thesis unfolding eq by simp
  qed
qed

subsection \<open>The cache of listed items\<close>

lemma rfCache_of_snoc: "rfCache_of (xs @ [x]) = (rfCache_of xs)(rf_Name x \<mapsto> x)"
  by (simp add: rfCache_of_def)

lemma rfCache_of_Nil: "rfCache_of [] = Map.empty"
  by (simp add: rfCache_of_def)

lemma rfCache_of_names_ok: "names_ok (rfCache_of xs)"
  by (induction xs rule: rev_induct)
     (auto simp: rfCache_of_snoc rfCache_of_Nil names_ok_def)

lemma rfCache_of_None: "(rfCache_of xs k = None) = (k \<notin> set (map rf_Name xs))"
  by (induction xs rule: rev_induct) (auto simp: rfCache_of_snoc rfCache_of_Nil)

lemma rfCache_of_distinct:
  "distinct (map rf_Name xs) \<Longrightarrow> x \<in> set xs \<Longrightarrow> rfCache_of xs (rf_Name x) = Some x"
proof (induction xs rule: rev_induct)
  case Nil
  then show ?case by simp
next
  case (snoc a xs)
  show ?case
  proof (cases "x = a")
    case True
    then show ?thesis by (simp add: rfCache_of_snoc)
  next
    case False
    then have mem: "x \<in> set xs" using snoc.prems by simp
    then have "rf_Name x \<in> rf_Name ` set xs" by (rule imageI)
    then have ne: "rf_Name a \<noteq> rf_Name x" using snoc.prems by auto
    have "rfCache_of xs (rf_Name x) = Some x"
      using snoc.IH mem snoc.prems by simp
    with ne show ?thesis by (simp add: rfCache_of_snoc)
  qed
qed


subsection \<open>One phase: a list call and the loop\<close>

lemma listed_simps:
  "flavors (listed r) = flavors r"
  "calls (listed r) = calls r @ [ListCall]"
  "update_err (listed r) = update_err r"
  "same_tables r (listed r)"
  by (simp_all add: listed_def same_tables_def)

lemma phase_unfold:
  "updateResourceFlavorReferences r cq ks d =
     (case list_err r (count_calls isList r) of
        Some e \<Rightarrow> (Some e, listed r)
      | None \<Rightarrow>
          (None, range_objs (rfCache_of (flavors r)) (cq_Name cq) d ks (listed r)))"
  by (simp add: updateResourceFlavorReferences_def client_List_def Let_def listed_def
           split: option.splits)

lemma phase_result:
  "fst (updateResourceFlavorReferences r cq ks d) = list_err r (count_calls isList r)"
  by (simp add: phase_unfold split: option.splits)

lemma phase_same: "same_tables r (snd (updateResourceFlavorReferences r cq ks d))"
  by (auto simp: phase_unfold listed_simps split: option.splits
           intro: same_tables_trans [OF listed_simps(4) range_objs_same])

lemma phase_calls:
  "calls (snd (updateResourceFlavorReferences r cq ks d)) =
     calls r @ ListCall #
       (case list_err r (count_calls isList r) of
          Some e \<Rightarrow> []
        | None \<Rightarrow> map UpdateCall (issued (rfCache_of (flavors r)) (cq_Name cq) d ks))"
  by (simp add: phase_unfold listed_simps range_objs_calls split: option.splits)

lemma phase_count_list:
  "count_calls isList (snd (updateResourceFlavorReferences r cq ks d)) =
     Suc (count_calls isList r)"
  by (simp add: count_calls_def phase_calls filter_map comp_def split: option.splits)

lemma phase_touched:
  "list_all2 (touched (rfCache_of (flavors r)) (cq_Name cq) d (set ks)) (flavors r)
     (flavors (snd (updateResourceFlavorReferences r cq ks d)))"
proof (cases "list_err r (count_calls isList r)")
  case None
  then show ?thesis
    using range_objs_touched [OF rfCache_of_names_ok, of "flavors r" "cq_Name cq" d ks "listed r"]
    by (simp add: phase_unfold listed_simps)
next
  case (Some e)
  then show ?thesis
    by (simp add: phase_unfold listed_simps list_all2_refl touched_def)
qed

lemma phase_failed:
  "list_err r (count_calls isList r) = Some e \<Longrightarrow>
   flavors (snd (updateResourceFlavorReferences r cq ks d)) = flavors r"
  by (simp add: phase_unfold listed_simps)

lemma phase_names:
  "map rf_Name (flavors (snd (updateResourceFlavorReferences r cq ks d))) =
   map rf_Name (flavors r)"
proof -
  have "list_all2 (\<lambda>x y. rf_Name y = rf_Name x) (flavors r)
          (flavors (snd (updateResourceFlavorReferences r cq ks d)))"
    using phase_touched [of r cq d ks]
    by (rule list_all2_mono) (rule touched_names [OF rfCache_of_names_ok])
  then show ?thesis
    by (simp add: list_all2_conv_all_nth list_eq_iff_nth_eq)
qed

lemma phase_rel_flavors:
  assumes dist: "distinct (map rf_Name (flavors r))"
  shows "list_all2 (phase_rel (cq_Name cq) d (set ks)) (flavors r)
           (flavors (snd (updateResourceFlavorReferences r cq ks d)))"
  using phase_touched [of r cq d ks]
proof (rule list.rel_mono_strong)
  fix x y
  assume x: "x \<in> set (flavors r)"
    and t: "touched (rfCache_of (flavors r)) (cq_Name cq) d (set ks) x y"
  have "rfCache_of (flavors r) (rf_Name x) = Some x"
    using rfCache_of_distinct [OF dist x] .
  with t show "phase_rel (cq_Name cq) d (set ks) x y"
    by (auto simp: touched_def phase_rel_def)
qed


lemma issued_names:
  "names_ok C \<Longrightarrow> set (map rf_Name (issued C n d ks)) = {k \<in> set ks. C k \<noteq> None}"
  by (induction ks) (auto simp: issued_def names_ok_def mutate_ref_name split: option.splits)

subsection \<open>The two phases of a synchronization\<close>

lemma updateReferences_unfold:
  "updateReferences r oldCQ cq =
     (case list_err r (count_calls isList r) of
        Some e \<Rightarrow> (Some e, removal_phase r oldCQ cq)
      | None \<Rightarrow>
          updateResourceFlavorReferences (removal_phase r oldCQ cq) cq
            (range_order r (needAdd oldCQ cq)) False)"
proof -
  let ?p = "updateResourceFlavorReferences r cq (range_order r (needRemove oldCQ cq)) True"
  have ro: "range_order (snd ?p) = range_order r"
    using phase_same [of r cq "range_order r (needRemove oldCQ cq)" True]
    by (simp add: same_tables_def)
  have res: "fst ?p = list_err r (count_calls isList r)" by (rule phase_result)
  show ?thesis
    using ro res
    by (cases ?p)
       (auto simp: updateReferences_def removal_phase_def split: option.splits prod.splits)
qed

lemma removal_phase_facts:
  "same_tables r (removal_phase r oldCQ cq)"
  "count_calls isList (removal_phase r oldCQ cq) = Suc (count_calls isList r)"
  "map rf_Name (flavors (removal_phase r oldCQ cq)) = map rf_Name (flavors r)"
  by (simp_all add: removal_phase_def phase_same phase_count_list phase_names)

lemma updateReferences_result:
  "fst (updateReferences r oldCQ cq) =
     (case list_err r (count_calls isList r) of
        Some e \<Rightarrow> Some e
      | None \<Rightarrow> list_err r (Suc (count_calls isList r)))"
proof -
  have "list_err (removal_phase r oldCQ cq) = list_err r"
    using removal_phase_facts(1) [of r oldCQ cq] by (simp add: same_tables_def)
  then show ?thesis
    by (simp add: updateReferences_unfold phase_result removal_phase_facts(2)
             split: option.splits)
qed

lemma updateReferences_same: "same_tables r (snd (updateReferences r oldCQ cq))"
proof (cases "list_err r (count_calls isList r)")
  case None
  then show ?thesis
    using same_tables_trans [OF removal_phase_facts(1) phase_same]
    by (simp add: updateReferences_unfold)
next
  case (Some e)
  then show ?thesis
    by (simp add: updateReferences_unfold removal_phase_facts(1))
qed

lemma updateReferences_count_list:
  "count_calls isList (snd (updateReferences r oldCQ cq)) =
     count_calls isList r + (if list_err r (count_calls isList r) = None then 2 else 1)"
  by (auto simp: updateReferences_unfold phase_count_list removal_phase_facts(2))

subsection \<open>The flavor names of a spec\<close>




subsection \<open>Evaluating the examples\<close>

lemma ex_queue_keys: "flavor_keys (ex_queue n fs) = remdups fs"
  by (simp add: flavor_keys_def ex_queue_def elems_def comp_def)

lemma ex_queue_name: "cq_Name (ex_queue n fs) = n"
  by (simp add: ex_queue_def)

lemmas run_defs =
  updateReferences_def updateResourceFlavorReferences_def client_List_def
  client_Update_def count_calls_def needRemove_def needAdd_def ex_queue_keys ex_queue_name
  Let_def ex_reconciler_def ex_flavor_def rfCache_of_def mutate_ref_def delete_ref_def
  insert_ref_def log_Error_def referencing_def new_updates_def







subsection \<open>The requests a synchronization sends\<close>

lemma new_updates_append:
  "calls r' = calls r @ cs \<Longrightarrow> new_updates r r' = concat (map update_of cs)"
  by (simp add: new_updates_def)

lemma update_of_UpdateCall: "concat (map update_of (map UpdateCall xs)) = xs"
  by (induction xs) simp_all

lemma update_of_comp: "concat (map (update_of \<circ> UpdateCall) xs) = xs"
  using update_of_UpdateCall [of xs] by simp

lemma updateReferences_calls:
  "calls (snd (updateReferences r oldCQ cq)) =
     calls r @ ListCall #
       (case list_err r (count_calls isList r) of
          Some e \<Rightarrow> []
        | None \<Rightarrow>
            map UpdateCall
              (issued (rfCache_of (flavors r)) (cq_Name cq) True
                 (range_order r (needRemove oldCQ cq))) @
            ListCall #
              (case list_err r (Suc (count_calls isList r)) of
                 Some e \<Rightarrow> []
               | None \<Rightarrow>
                   map UpdateCall
                     (issued (rfCache_of (flavors (removal_phase r oldCQ cq))) (cq_Name cq) False
                        (range_order r (needAdd oldCQ cq)))))"
proof (cases "list_err r (count_calls isList r)")
  case (Some e)
  then show ?thesis
    by (simp add: updateReferences_unfold removal_phase_def phase_calls)
next
  case None
  have le: "list_err (removal_phase r oldCQ cq) = list_err r"
    using removal_phase_facts(1) [of r oldCQ cq] by (simp add: same_tables_def)
  have c1: "calls (removal_phase r oldCQ cq) =
      calls r @ ListCall # map UpdateCall
              (issued (rfCache_of (flavors r)) (cq_Name cq) True
                 (range_order r (needRemove oldCQ cq)))"
    using None by (simp add: removal_phase_def phase_calls)
  show ?thesis
    using None
    by (simp add: updateReferences_unfold phase_calls [of "removal_phase r oldCQ cq"]
          le removal_phase_facts(2) c1)
qed

lemma updateReferences_new_updates:
  "new_updates r (snd (updateReferences r oldCQ cq)) =
     (case list_err r (count_calls isList r) of
        Some e \<Rightarrow> []
      | None \<Rightarrow>
          issued (rfCache_of (flavors r)) (cq_Name cq) True
            (range_order r (needRemove oldCQ cq)) @
          (case list_err r (Suc (count_calls isList r)) of
             Some e \<Rightarrow> []
           | None \<Rightarrow>
               issued (rfCache_of (flavors (removal_phase r oldCQ cq))) (cq_Name cq) False
                 (range_order r (needAdd oldCQ cq))))"
  by (simp add: new_updates_append [OF updateReferences_calls] update_of_comp
           split: option.splits)

lemma issued_names_stored:
  "set (map rf_Name (issued (rfCache_of items) n d ks)) =
     {k \<in> set ks. k \<in> set (map rf_Name items)}"
  using issued_names [OF rfCache_of_names_ok, of items n d ks]
  by (simp add: rfCache_of_None)

subsection \<open>The two mutations\<close>



lemma entry_delete_ref: "entry (delete_ref n x) m = (if m = n then None else entry x m)"
  by (simp add: entry_def delete_ref_def split: option.splits)

lemma entry_insert_ref: "entry (insert_ref n x) m = (if m = n then Some [] else entry x m)"
  by (simp add: entry_def insert_ref_def split: option.splits)

lemma rfCache_of_Some:
  "rfCache_of xs k = Some rf \<Longrightarrow> rf \<in> set xs \<and> rf_Name rf = k"
  by (induction xs rule: rev_induct)
     (auto simp: rfCache_of_snoc rfCache_of_Nil split: if_splits)

lemma set_issued:
  "set (issued C n d ks) = {mutate_ref d n rf | k rf. k \<in> set ks \<and> C k = Some rf}"
  by (induction ks) (auto simp: issued_def split: option.splits)



lemma list_all2_right: "list_all2 P xs ys \<Longrightarrow> y \<in> set ys \<Longrightarrow> \<exists>x \<in> set xs. P x y"
  by (induction rule: list_all2_induct) auto

subsection \<open>The store after a synchronization\<close>



lemma removal_phase_distinct:
  "distinct (map rf_Name (flavors r)) \<Longrightarrow>
   distinct (map rf_Name (flavors (removal_phase r oldCQ cq)))"
  by (simp add: removal_phase_facts(3))

lemma ref_name:
  "rf_Name (delete_ref n x) = rf_Name x"
  "rf_Name (insert_ref n x) = rf_Name x"
  by (simp_all add: delete_ref_def insert_ref_def)





subsection \<open>Entries of other queues\<close>

lemma same_others_refl: "same_others n x x"
  by (simp add: same_others_def)

lemma same_others_trans: "same_others n x y \<Longrightarrow> same_others n y z \<Longrightarrow> same_others n x z"
  by (simp add: same_others_def)

lemma same_others_mutate: "same_others n x (mutate_ref d n x)"
  by (simp add: same_others_def mutate_ref_def ref_name entry_delete_ref entry_insert_ref)

lemma phase_rel_same_others: "phase_rel n d S x y \<Longrightarrow> same_others n x y"
  by (auto simp: phase_rel_def same_others_refl same_others_mutate)

lemma phase_same_others:
  assumes dist: "distinct (map rf_Name (flavors r))"
  shows "list_all2 (same_others (cq_Name cq)) (flavors r)
           (flavors (snd (updateResourceFlavorReferences r cq ks d)))"
  using phase_rel_flavors [OF dist, of cq d ks]
  by (rule list_all2_mono) (rule phase_rel_same_others)

lemma phase_sent_same_others:
  assumes dist: "distinct (map rf_Name (flavors r))"
    and y: "y \<in> set (issued (rfCache_of (flavors r)) n d ks)"
  shows "\<exists>x \<in> set (flavors r). same_others n x y"
proof -
  from y obtain k rf where "rfCache_of (flavors r) k = Some rf" and "y = mutate_ref d n rf"
    by (auto simp: set_issued)
  then show ?thesis
    using rfCache_of_Some [of "flavors r" k rf] same_others_mutate [of n rf d] by blast
qed

subsection \<open>The event handlers\<close>

lemma updateReferences_collaborators:
  "cache_calls (snd (updateReferences r oldCQ cq)) = cache_calls r"
  "qManager_calls (snd (updateReferences r oldCQ cq)) = qManager_calls r"
  "cache_err (snd (updateReferences r oldCQ cq)) = cache_err r"
  "qManager_err (snd (updateReferences r oldCQ cq)) = qManager_err r"
  using updateReferences_same [of r oldCQ cq] by (simp_all add: same_tables_def)

lemma updateReferences_independent:
  "fst (updateReferences (r\<lparr>cache_err := ce, qManager_err := qe\<rparr>) oldCQ cq) =
   fst (updateReferences r oldCQ cq)"
  by (simp add: updateReferences_result count_calls_def split: option.splits)

lemma Create_unfold:
  "Create r (ClusterQueueObject cq) =
     (case fst (updateReferences r zero_ClusterQueue cq) of
        Some err \<Rightarrow>
          (False, log_Error ''Failed to update resource flavor reference''
                    (snd (updateReferences r zero_ClusterQueue cq)))
      | None \<Rightarrow>
          (case cache_AddClusterQueue (snd (updateReferences r zero_ClusterQueue cq)) cq of
             (e1, r2) \<Rightarrow>
               (let r3 = (case e1 of
                            Some _ \<Rightarrow> log_Error ''Failed to add clusterQueue to cache'' r2
                          | None \<Rightarrow> r2)
                in case qManager_AddClusterQueue r3 cq of
                     (e2, r4) \<Rightarrow>
                       (True,
                        case e2 of
                          Some _ \<Rightarrow>
                            log_Error ''Failed to add clusterQueue to queue manager'' r4
                        | None \<Rightarrow> r4))))"
  by (cases "updateReferences r zero_ClusterQueue cq")
     (simp add: Create_def split: option.splits)

lemma zero_keys:
  "flavor_keys zero_ClusterQueue = []"
  "flavor_keys (cq\<lparr>cq_Spec := zero_ClusterQueueSpec\<rparr>) = []"
  "cq_Name (cq\<lparr>cq_Spec := zero_ClusterQueueSpec\<rparr>) = cq_Name cq"
  by (simp_all add: flavor_keys_def zero_ClusterQueue_def zero_ClusterQueueSpec_def elems_def)

lemma Delete_unfold:
  "Delete r (ClusterQueueObject cq) =
     (case fst (updateReferences r cq (cq\<lparr>cq_Spec := zero_ClusterQueueSpec\<rparr>)) of
        Some err \<Rightarrow>
          (False, log_Error ''Fail to remove resource flavor reference''
                    (snd (updateReferences r cq (cq\<lparr>cq_Spec := zero_ClusterQueueSpec\<rparr>))))
      | None \<Rightarrow>
          (True, qManager_DeleteClusterQueue
                   (cache_DeleteClusterQueue
                      (snd (updateReferences r cq (cq\<lparr>cq_Spec := zero_ClusterQueueSpec\<rparr>))) cq)
                   cq))"
  by (cases "updateReferences r cq (cq\<lparr>cq_Spec := zero_ClusterQueueSpec\<rparr>)")
     (simp add: Delete_def Let_def split: option.splits)

lemma update_collaborators_facts:
  "calls (update_collaborators r cq) = calls r"
  "flavors (update_collaborators r cq) = flavors r"
  "cache_calls (update_collaborators r cq) = cache_calls r @ [UpdateClusterQueue cq]"
  "qManager_calls (update_collaborators r cq) = qManager_calls r @ [UpdateClusterQueue cq]"
  by (simp_all add: update_collaborators_def cache_UpdateClusterQueue_def
        qManager_UpdateClusterQueue_def log_Error_def Let_def split: option.splits)

subsection \<open>Reconcile\<close>

lemma status_writes_append:
  "calls r' = calls r @ cs \<Longrightarrow>
   status_writes r' =
     status_writes r @ concat (map (\<lambda>c. case c of StatusUpdateCall cq \<Rightarrow> [cq] | _ \<Rightarrow> []) cs)"
  by (simp add: status_writes_def)

lemma client_Get_calls: "client_Get r name = (x, r1) \<Longrightarrow> calls r1 = calls r @ [GetCall name]"
  by (auto simp: client_Get_def Let_def split: option.splits)

lemma Status_calls: "Status r cq = (x, r1) \<Longrightarrow> calls r1 = calls r"
  by (auto simp: Status_def log_Error_def split: sum.splits prod.splits)

lemma client_Status_Update_calls:
  "client_Status_Update r cq = (e, r1) \<Longrightarrow> calls r1 = calls r @ [StatusUpdateCall cq]"
  by (auto simp: client_Status_Update_def Let_def split: option.splits)

lemma Reconcile_unfold:
  assumes get: "client_Get r name = (Inr cqObj, r1)"
    and st: "Status r1 cqObj = (Inr status, r2)"
  shows "Reconcile r name =
     (if Semantic_DeepEqual status (cq_Status cqObj) then (None, r2)
      else (IgnoreNotFound (fst (client_Status_Update r2 (cqObj\<lparr>cq_Status := status\<rparr>))),
            snd (client_Status_Update r2 (cqObj\<lparr>cq_Status := status\<rparr>))))"
  using get st by (simp add: Reconcile_def split: prod.splits)

lemma ex_reconcile_Get:
  "client_Get (ex_reconcile p e) ''q'' =
     (Inr ex_persisted, (ex_reconcile p e)\<lparr>calls := [GetCall ''q'']\<rparr>)"
  by (simp add: client_Get_def ex_reconcile_def ex_reconciler_def count_calls_def Let_def)

lemma ex_reconcile_Status:
  "Status ((ex_reconcile p e)\<lparr>calls := [GetCall ''q'']\<rparr>) ex_persisted =
     (Inr (ex_computed p), (ex_reconcile p e)\<lparr>calls := [GetCall ''q'']\<rparr>)"
  by (simp add: Status_def ex_reconcile_def ex_reconciler_def ex_computed_def)

lemma ex_reconcile_write:
  "fst (client_Status_Update ((ex_reconcile p (Some e))\<lparr>calls := [GetCall ''q'']\<rparr>) cq) = Some e"
  by (simp add: client_Status_Update_def ex_reconcile_def ex_reconciler_def count_calls_def
        Let_def)

lemma ex_equal: "Semantic_DeepEqual (ex_computed 3) (cq_Status ex_persisted)"
  by (auto simp: Semantic_DeepEqual_def ex_computed_def ex_persisted_def)

lemma ex_differ: "\<not> Semantic_DeepEqual (ex_computed 4) (cq_Status ex_persisted)"
  by (simp add: Semantic_DeepEqual_def ex_computed_def ex_persisted_def)

lemma ex_reconcile_writes: "status_writes (ex_reconcile p e) = []"
  by (simp add: status_writes_def ex_reconcile_def ex_reconciler_def)

section \<open>The claims\<close>

subsection \<open>C3: list calls of one synchronization\<close>

text \<open>
  C3, as amended. \<^verbatim>\<open>updateReferences\<close> calls
  \<^verbatim>\<open>updateResourceFlavorReferences\<close> once for the removals and once for the
  additions, and each call lists the flavors first. One synchronization therefore
  makes two list calls when the first succeeds and one when it fails, however many
  identifiers there are to remove or to add: a list call per phase, never one per
  identifier.
\<close>

theorem updateReferences_list_calls:
  "count_calls isList (snd (updateReferences r oldCQ cq)) =
     count_calls isList r + (if list_err r (count_calls isList r) = None then 2 else 1)"
  by (rule updateReferences_count_list)

text \<open>
  C3 as stated fails: with one flavor to remove and one to add, and no failing call,
  the flavors are listed twice.
\<close>

theorem updateReferences_single_list_counterexample:
  "needRemove (ex_queue ''q'' [''a'']) (ex_queue ''q'' [''b'']) \<noteq> [] \<and>
   needAdd (ex_queue ''q'' [''a'']) (ex_queue ''q'' [''b'']) \<noteq> [] \<and>
   count_calls isList ex_swap = 0 \<and>
   count_calls isList
     (snd (updateReferences ex_swap (ex_queue ''q'' [''a'']) (ex_queue ''q'' [''b'']))) = 2"
  by (simp add: ex_swap_def run_defs)

subsection \<open>C2: failures during a synchronization\<close>

text \<open>
  C2, as amended. Whatever the outcome of each persist (the state \<open>r\<close>, and with it
  the table \<open>update_err\<close>, is arbitrary, and the last conjunct replaces the table by
  any other), the operation fails exactly when one of its two list calls fails, the
  one before the removals or the one before the additions, and it returns that
  error. When the first list call fails, no flavor is changed and no update is sent.
  When only the second fails, an update has been sent for every stored flavor that
  was to be removed, and none for an addition. When both succeed, an update is sent
  for every identifier to remove or to add that names a stored flavor: no persist
  failure stops the loop.
\<close>

theorem updateReferences_partial_failure:
  fixes r :: "'q reconciler"
  assumes ord: "\<forall>ks. set (range_order r ks) = set ks"
  shows
    "(case list_err r (count_calls isList r) of
        Some e \<Rightarrow>
          fst (updateReferences r oldCQ cq) = Some e \<and>
          flavors (snd (updateReferences r oldCQ cq)) = flavors r \<and>
          new_updates r (snd (updateReferences r oldCQ cq)) = []
      | None \<Rightarrow>
          (case list_err r (Suc (count_calls isList r)) of
             Some e \<Rightarrow>
               fst (updateReferences r oldCQ cq) = Some e \<and>
               set (map rf_Name (new_updates r (snd (updateReferences r oldCQ cq)))) =
                 {k \<in> set (needRemove oldCQ cq). k \<in> set (map rf_Name (flavors r))}
           | None \<Rightarrow>
               fst (updateReferences r oldCQ cq) = None \<and>
               set (map rf_Name (new_updates r (snd (updateReferences r oldCQ cq)))) =
                 {k \<in> set (needRemove oldCQ cq) \<union> set (needAdd oldCQ cq).
                    k \<in> set (map rf_Name (flavors r))})) \<and>
     fst (updateReferences (r\<lparr>update_err := ue\<rparr>) oldCQ cq) =
       fst (updateReferences r oldCQ cq)"
proof -
  have indep: "fst (updateReferences (r\<lparr>update_err := ue\<rparr>) oldCQ cq) =
       fst (updateReferences r oldCQ cq)"
    by (simp add: updateReferences_result count_calls_def split: option.splits)
  have names1: "set (map rf_Name (flavors (removal_phase r oldCQ cq))) =
      set (map rf_Name (flavors r))"
    using removal_phase_facts(3) [of r oldCQ cq] by simp
  show ?thesis
  proof (cases "list_err r (count_calls isList r)")
    case (Some e)
    have res: "fst (updateReferences r oldCQ cq) = Some e"
      by (simp add: updateReferences_result Some)
    have nu: "new_updates r (snd (updateReferences r oldCQ cq)) = []"
      by (simp add: updateReferences_new_updates Some)
    have fl: "flavors (snd (updateReferences r oldCQ cq)) = flavors r"
      by (simp add: updateReferences_unfold removal_phase_def phase_failed Some)
    show ?thesis
      unfolding indep using Some res nu fl by simp
  next
    case None
    note first = None
    show ?thesis
    proof (cases "list_err r (Suc (count_calls isList r))")
      case (Some e)
      have res: "fst (updateReferences r oldCQ cq) = Some e"
        by (simp add: updateReferences_result first Some)
      have nu: "set (map rf_Name (new_updates r (snd (updateReferences r oldCQ cq)))) =
                 {k \<in> set (needRemove oldCQ cq). k \<in> set (map rf_Name (flavors r))}"
        using ord
        by (simp add: updateReferences_new_updates first Some issued_names_stored
              del: set_map)
      show ?thesis
        unfolding indep using first Some res nu by simp
    next
      case None
      have res: "fst (updateReferences r oldCQ cq) = None"
        by (simp add: updateReferences_result first None)
      have nu: "set (map rf_Name (new_updates r (snd (updateReferences r oldCQ cq)))) =
                 {k \<in> set (needRemove oldCQ cq) \<union> set (needAdd oldCQ cq).
                    k \<in> set (map rf_Name (flavors r))}"
        using ord names1
        by (auto simp add: updateReferences_new_updates first None issued_names_stored
              simp del: set_map)
      show ?thesis
        unfolding indep using first None res nu by simp
    qed
  qed
qed

text \<open>
  The hypothesis holds and the first persist fails: the operation succeeds, updates are
  sent for both flavors, and the second removal is stored.
\<close>

theorem updateReferences_partial_failure_witness:
  "(\<forall>ks. set (range_order ex_conflict ks) = set ks) \<and>
   update_err ex_conflict 0 = Some Conflict \<and>
   fst (updateReferences ex_conflict (ex_queue ''q'' [''a'', ''b'']) (ex_queue ''q'' [])) =
     None \<and>
   map referencing (flavors (snd (updateReferences ex_conflict
      (ex_queue ''q'' [''a'', ''b'']) (ex_queue ''q'' [])))) = [{''q''}, {}] \<and>
   set (map rf_Name (new_updates ex_conflict (snd (updateReferences ex_conflict
      (ex_queue ''q'' [''a'', ''b'']) (ex_queue ''q'' []))))) = {''a'', ''b''}"
  using updateReferences_partial_failure
    [of ex_conflict "ex_queue ''q'' [''a'', ''b'']" "ex_queue ''q'' []" "\<lambda>n. None"]
  by (simp add: ex_conflict_def run_defs)

text \<open>
  C2 as stated fails: the initial list call succeeds, the second list call fails, the
  operation fails, and the removal made before it stays stored.
\<close>

theorem updateReferences_initial_list_counterexample:
  "list_err ex_relist (count_calls isList ex_relist) = None \<and>
   fst (updateReferences ex_relist (ex_queue ''q'' [''a'']) (ex_queue ''q'' [])) =
     Some (Other ''list'') \<and>
   map referencing (flavors ex_relist) = [{''q''}] \<and>
   map referencing (flavors (snd (updateReferences ex_relist
      (ex_queue ''q'' [''a'']) (ex_queue ''q'' [])))) = [{}]"
  by (simp add: ex_relist_def run_defs)

subsection \<open>C1: the symmetric difference of the references\<close>



subsection \<open>C9: the entries of other queues\<close>

text \<open>
  C9. On a store with one flavor per name, a synchronization for a queue leaves every
  stored flavor with its name and with its entry for every other queue name, whatever
  fails; and every update it sends carries a stored flavor changed at most in the
  entry of the synchronizing queue's own name.
\<close>

theorem updateReferences_other_entries:
  fixes r :: "'q reconciler"
  assumes dist: "distinct (map rf_Name (flavors r))"
  shows
    "list_all2 (same_others (cq_Name cq)) (flavors r)
       (flavors (snd (updateReferences r oldCQ cq))) \<and>
     (\<forall>y \<in> set (new_updates r (snd (updateReferences r oldCQ cq))).
        \<exists>x \<in> set (flavors r). same_others (cq_Name cq) x y)"
proof -
  let ?r1 = "removal_phase r oldCQ cq"
  let ?n = "cq_Name cq"
  have d1: "distinct (map rf_Name (flavors ?r1))"
    by (rule removal_phase_distinct [OF dist])
  have rel1: "list_all2 (same_others ?n) (flavors r) (flavors ?r1)"
    unfolding removal_phase_def by (rule phase_same_others [OF dist])
  have sent1: "\<exists>x \<in> set (flavors r). same_others ?n x y"
    if "y \<in> set (issued (rfCache_of (flavors r)) ?n True ks)" for y ks
    using phase_sent_same_others [OF dist that] .
  have sent2: "\<exists>x \<in> set (flavors r). same_others ?n x y"
    if "y \<in> set (issued (rfCache_of (flavors ?r1)) ?n False ks)" for y ks
  proof -
    from phase_sent_same_others [OF d1 that] obtain z where
      z: "z \<in> set (flavors ?r1)" and zy: "same_others ?n z y" by blast
    from list_all2_right [OF rel1 z] obtain x where
      x: "x \<in> set (flavors r)" and xz: "same_others ?n x z" by blast
    from same_others_trans [OF xz zy] x show ?thesis by blast
  qed
  show ?thesis
  proof (cases "list_err r (count_calls isList r)")
    case (Some e)
    have "flavors (snd (updateReferences r oldCQ cq)) = flavors r"
      using Some by (simp add: updateReferences_unfold removal_phase_def phase_failed)
    moreover have "new_updates r (snd (updateReferences r oldCQ cq)) = []"
      using Some by (simp add: updateReferences_new_updates)
    ultimately show ?thesis
      by (simp add: list_all2_refl same_others_refl)
  next
    case None
    let ?r2 = "snd (updateResourceFlavorReferences ?r1 cq (range_order r (needAdd oldCQ cq)) False)"
    have eq: "snd (updateReferences r oldCQ cq) = ?r2"
      using None by (simp add: updateReferences_unfold)
    have rel2: "list_all2 (same_others ?n) (flavors ?r1) (flavors ?r2)"
      by (rule phase_same_others [OF d1])
    have rel: "list_all2 (same_others ?n) (flavors r) (flavors (snd (updateReferences r oldCQ cq)))"
      unfolding eq using rel1 rel2
      by (rule list_all2_trans [rotated]) (rule same_others_trans)
    have sent: "\<exists>x \<in> set (flavors r). same_others ?n x y"
      if "y \<in> set (new_updates r (snd (updateReferences r oldCQ cq)))" for y
      using that None sent1 sent2
      by (auto simp: updateReferences_new_updates split: option.splits)
    from rel sent show ?thesis by blast
  qed
qed

text \<open>
  Queue \<open>q\<close> leaves flavor \<open>a\<close> for flavor \<open>b\<close>; the entries of queue \<open>p\<close> stay.
\<close>

theorem updateReferences_other_entries_witness:
  "distinct (map rf_Name (flavors ex_two)) \<and>
   list_all2 (same_others ''q'') (flavors ex_two)
     (flavors (snd (updateReferences ex_two (ex_queue ''q'' [''a'']) (ex_queue ''q'' [''b''])))) \<and>
   map referencing (flavors ex_two) = [{''p'', ''q''}, {''p''}] \<and>
   map referencing
     (flavors (snd (updateReferences ex_two (ex_queue ''q'' [''a'']) (ex_queue ''q'' [''b''])))) =
     [{''p''}, {''p'', ''q''}]"
proof -
  have d: "distinct (map rf_Name (flavors ex_two))"
    by (simp add: ex_two_def run_defs)
  have b: "map referencing (flavors ex_two) = [{''p'', ''q''}, {''p''}]"
    by (auto simp: ex_two_def run_defs)
  have a: "map referencing
     (flavors (snd (updateReferences ex_two (ex_queue ''q'' [''a'']) (ex_queue ''q'' [''b''])))) =
     [{''p''}, {''p'', ''q''}]"
    by (auto simp: ex_two_def run_defs)
  from updateReferences_other_entries [OF d, of "ex_queue ''q'' [''b'']" "ex_queue ''q'' [''a'']"]
  have "list_all2 (same_others ''q'') (flavors ex_two)
     (flavors (snd (updateReferences ex_two (ex_queue ''q'' [''a'']) (ex_queue ''q'' [''b'']))))"
    by (simp add: ex_queue_name)
  with d a b show ?thesis by blast
qed

subsection \<open>C5: create events\<close>

text \<open>
  C5. On a create event for a ClusterQueue the predicate returns true exactly when the
  reference synchronization succeeds. What the cache and the queue manager answer to
  \<^verbatim>\<open>AddClusterQueue\<close> has no part in it: the result is the same under any other pair
  of their outcome tables. When the synchronization fails neither is called; when it
  succeeds each is called once with the object.
\<close>

theorem Create_admission:
  "fst (Create r (ClusterQueueObject cq)) =
     (fst (updateReferences r zero_ClusterQueue cq) = None) \<and>
   fst (Create (r\<lparr>cache_err := ce, qManager_err := qe\<rparr>) (ClusterQueueObject cq)) =
     fst (Create r (ClusterQueueObject cq)) \<and>
   cache_calls (snd (Create r (ClusterQueueObject cq))) =
     cache_calls r @
       (if fst (updateReferences r zero_ClusterQueue cq) = None
        then [AddClusterQueue cq] else []) \<and>
   qManager_calls (snd (Create r (ClusterQueueObject cq))) =
     qManager_calls r @
       (if fst (updateReferences r zero_ClusterQueue cq) = None
        then [AddClusterQueue cq] else [])"
proof -
  have res: "fst (Create r' (ClusterQueueObject cq)) =
     (fst (updateReferences r' zero_ClusterQueue cq) = None)" for r' :: "'a reconciler"
    by (simp add: Create_unfold Let_def split: option.splits prod.splits)
  have indep: "fst (Create (r\<lparr>cache_err := ce, qManager_err := qe\<rparr>) (ClusterQueueObject cq)) =
     fst (Create r (ClusterQueueObject cq))"
    unfolding res by (simp add: updateReferences_independent)
  have c: "cache_calls (snd (Create r (ClusterQueueObject cq))) =
     cache_calls r @
       (if fst (updateReferences r zero_ClusterQueue cq) = None
        then [AddClusterQueue cq] else [])"
    by (simp add: Create_unfold Let_def cache_AddClusterQueue_def qManager_AddClusterQueue_def
          log_Error_def updateReferences_collaborators split: option.splits)
  have q: "qManager_calls (snd (Create r (ClusterQueueObject cq))) =
     qManager_calls r @
       (if fst (updateReferences r zero_ClusterQueue cq) = None
        then [AddClusterQueue cq] else [])"
    by (simp add: Create_unfold Let_def cache_AddClusterQueue_def qManager_AddClusterQueue_def
          log_Error_def updateReferences_collaborators split: option.splits)
  from res [of r] indep c q show ?thesis by blast
qed

text \<open>
  Both \<^verbatim>\<open>AddClusterQueue\<close> calls fail after a successful synchronization: the
  predicate returns true and the two failures are logged.
\<close>

theorem Create_admission_witness:
  "cache_err ex_create (length (cache_calls ex_create)) = Some (Other ''cache'') \<and>
   qManager_err ex_create (length (qManager_calls ex_create)) = Some (Other ''queue manager'') \<and>
   fst (updateReferences ex_create zero_ClusterQueue (ex_queue ''q'' [''a''])) = None \<and>
   fst (Create ex_create (ClusterQueueObject (ex_queue ''q'' [''a'']))) = True \<and>
   cache_calls (snd (Create ex_create (ClusterQueueObject (ex_queue ''q'' [''a''])))) =
     [AddClusterQueue (ex_queue ''q'' [''a''])] \<and>
   qManager_calls (snd (Create ex_create (ClusterQueueObject (ex_queue ''q'' [''a''])))) =
     [AddClusterQueue (ex_queue ''q'' [''a''])] \<and>
   logged (snd (Create ex_create (ClusterQueueObject (ex_queue ''q'' [''a''])))) =
     [''Failed to add clusterQueue to cache'',
      ''Failed to add clusterQueue to queue manager'']"
proof -
  have e1: "cache_err ex_create (length (cache_calls ex_create)) = Some (Other ''cache'')"
    by (simp add: ex_create_def ex_reconciler_def)
  have e2: "qManager_err ex_create (length (qManager_calls ex_create)) =
      Some (Other ''queue manager'')"
    by (simp add: ex_create_def ex_reconciler_def)
  have ok: "fst (updateReferences ex_create zero_ClusterQueue (ex_queue ''q'' [''a''])) = None"
    by (simp add: updateReferences_result ex_create_def ex_reconciler_def count_calls_def)
  have c0: "cache_calls ex_create = []" and q0: "qManager_calls ex_create = []"
    by (simp_all add: ex_create_def ex_reconciler_def)
  have lg: "logged (snd (Create ex_create (ClusterQueueObject (ex_queue ''q'' [''a''])))) =
     [''Failed to add clusterQueue to cache'',
      ''Failed to add clusterQueue to queue manager'']"
    by (simp add: Create_def ex_create_def zero_keys cache_AddClusterQueue_def
          qManager_AddClusterQueue_def run_defs)
  from Create_admission [of ex_create "ex_queue ''q'' [''a'']"] ok c0 q0 e1 e2 lg
  show ?thesis by simp
qed

subsection \<open>C4: delete events\<close>

text \<open>
  C4, as amended. On a delete event for a ClusterQueue the predicate returns true
  exactly when the reference synchronization succeeds, and the object is removed from
  the cache and from the queue manager exactly then: \<^verbatim>\<open>Delete\<close> returns false before
  the two removals when the synchronization fails.
\<close>

theorem Delete_removal:
  "fst (Delete r (ClusterQueueObject cq)) =
     (fst (updateReferences r cq (cq\<lparr>cq_Spec := zero_ClusterQueueSpec\<rparr>)) = None) \<and>
   cache_calls (snd (Delete r (ClusterQueueObject cq))) =
     cache_calls r @
       (if fst (Delete r (ClusterQueueObject cq)) then [DeleteClusterQueue cq] else []) \<and>
   qManager_calls (snd (Delete r (ClusterQueueObject cq))) =
     qManager_calls r @
       (if fst (Delete r (ClusterQueueObject cq)) then [DeleteClusterQueue cq] else [])"
  by (simp add: Delete_unfold cache_DeleteClusterQueue_def qManager_DeleteClusterQueue_def
        log_Error_def updateReferences_collaborators split: option.splits)

text \<open>
  C4 as stated fails: the list call fails, the predicate returns false, and the cache
  and the queue manager still hold only the call that added the queue.
\<close>

theorem Delete_unconditional_counterexample:
  "fst (updateReferences ex_delete (ex_queue ''q'' [''a''])
          ((ex_queue ''q'' [''a''])\<lparr>cq_Spec := zero_ClusterQueueSpec\<rparr>)) = Some (Other ''list'') \<and>
   fst (Delete ex_delete (ClusterQueueObject (ex_queue ''q'' [''a'']))) = False \<and>
   cache_calls (snd (Delete ex_delete (ClusterQueueObject (ex_queue ''q'' [''a''])))) =
     [AddClusterQueue (ex_queue ''q'' [''a''])] \<and>
   qManager_calls (snd (Delete ex_delete (ClusterQueueObject (ex_queue ''q'' [''a''])))) =
     [AddClusterQueue (ex_queue ''q'' [''a''])]"
  by (simp add: Delete_def ex_delete_def zero_keys run_defs)

subsection \<open>C10: update events with an old object of another type\<close>

text \<open>
  C10. When the new object of an update event is a ClusterQueue and the old one is not,
  the predicate returns true, sends nothing to the API server and leaves the stored
  flavors as they are (no reference synchronization), and calls
  \<^verbatim>\<open>UpdateClusterQueue\<close> once on the cache and once on the queue manager with the
  new object.
\<close>

theorem Update_old_not_ClusterQueue:
  assumes "\<forall>oldCQ. objectOld \<noteq> ClusterQueueObject oldCQ"
  shows "fst (Update r objectOld (ClusterQueueObject cq)) = True \<and>
     calls (snd (Update r objectOld (ClusterQueueObject cq))) = calls r \<and>
     flavors (snd (Update r objectOld (ClusterQueueObject cq))) = flavors r \<and>
     cache_calls (snd (Update r objectOld (ClusterQueueObject cq))) =
       cache_calls r @ [UpdateClusterQueue cq] \<and>
     qManager_calls (snd (Update r objectOld (ClusterQueueObject cq))) =
       qManager_calls r @ [UpdateClusterQueue cq]"
proof -
  have "Update r objectOld (ClusterQueueObject cq) = (True, update_collaborators r cq)"
    using assms by (cases objectOld) (simp_all add: Update_def)
  then show ?thesis by (simp add: update_collaborators_facts)
qed

text \<open>
  The old object is of another type, and the new queue names a stored flavor that a
  synchronization would have updated.
\<close>

theorem Update_old_not_ClusterQueue_witness:
  "(\<forall>oldCQ. (OtherObject :: unit Object) \<noteq> ClusterQueueObject oldCQ) \<and>
   flavor_keys (ex_queue ''q'' [''b'']) = [''b''] \<and>
   fst (Update ex_two OtherObject (ClusterQueueObject (ex_queue ''q'' [''b'']))) = True \<and>
   calls (snd (Update ex_two OtherObject (ClusterQueueObject (ex_queue ''q'' [''b''])))) = [] \<and>
   flavors (snd (Update ex_two OtherObject (ClusterQueueObject (ex_queue ''q'' [''b''])))) =
     flavors ex_two \<and>
   cache_calls (snd (Update ex_two OtherObject (ClusterQueueObject (ex_queue ''q'' [''b''])))) =
     [UpdateClusterQueue (ex_queue ''q'' [''b''])] \<and>
   qManager_calls (snd (Update ex_two OtherObject (ClusterQueueObject (ex_queue ''q'' [''b''])))) =
     [UpdateClusterQueue (ex_queue ''q'' [''b''])]"
proof -
  have h: "\<forall>oldCQ. (OtherObject :: unit Object) \<noteq> ClusterQueueObject oldCQ" by simp
  have k: "flavor_keys (ex_queue ''q'' [''b'']) = [''b'']"
    by (simp add: ex_queue_keys)
  have z: "calls ex_two = []" "cache_calls ex_two = []" "qManager_calls ex_two = []"
    by (simp_all add: ex_two_def ex_reconciler_def)
  from Update_old_not_ClusterQueue [OF h, of ex_two "ex_queue ''q'' [''b'']"] h k z
  show ?thesis by simp
qed

subsection \<open>C8: the target of a workload notification\<close>

text \<open>
  C8. For a workload notification the handler adds at most one reconcile request to the
  work queue, with the batch period as its delay: for the queue named by the
  workload's admission record when it has one; otherwise for the queue the queue
  manager reports as holding the workload; and none when the queue manager reports no
  queue.
\<close>

theorem workload_request_target:
  "cqWorkloadHandler_Generic period h (WorkloadObject w) q =
     Some (case w_Admission w of
             Some a \<Rightarrow> q @ [(\<lparr>req_Name = adm_ClusterQueue a\<rparr>, period)]
           | None \<Rightarrow>
               if snd (ClusterQueueForWorkload h w)
               then q @ [(\<lparr>req_Name = fst (ClusterQueueForWorkload h w)\<rparr>, period)]
               else q)"
  by (simp add: cqWorkloadHandler_Generic_def requestForWorkloadClusterQueue_def
        split: option.splits prod.splits)

text \<open>
  The three cases: an admitted workload (the admission record wins over the queue
  manager), a pending workload, and a workload no queue holds.
\<close>

theorem workload_request_target_witness:
  "cqWorkloadHandler_Generic 1 ex_handler
     (WorkloadObject \<lparr>w_Name = ''pending'',
        w_Admission = Some \<lparr>adm_ClusterQueue = ''cq-admitted''\<rparr>\<rparr> :: unit Object) [] =
     Some [(\<lparr>req_Name = ''cq-admitted''\<rparr>, 1)] \<and>
   cqWorkloadHandler_Generic 1 ex_handler
     (WorkloadObject \<lparr>w_Name = ''pending'', w_Admission = None\<rparr> :: unit Object) [] =
     Some [(\<lparr>req_Name = ''cq-pending''\<rparr>, 1)] \<and>
   cqWorkloadHandler_Generic 1 ex_handler
     (WorkloadObject \<lparr>w_Name = ''unknown'', w_Admission = None\<rparr> :: unit Object) [] =
     Some []"
  using
    workload_request_target [of 1 ex_handler
      "\<lparr>w_Name = ''pending'', w_Admission = Some \<lparr>adm_ClusterQueue = ''cq-admitted''\<rparr>\<rparr>" "[]"]
    workload_request_target [of 1 ex_handler "\<lparr>w_Name = ''pending'', w_Admission = None\<rparr>" "[]"]
    workload_request_target [of 1 ex_handler "\<lparr>w_Name = ''unknown'', w_Admission = None\<rparr>" "[]"]
  by (simp add: ex_handler_def)

subsection \<open>C6: the status write of a reconcile\<close>

text \<open>
  C6. In a reconcile that reads the object and computes its status, when the computed
  status is semantically equal to the persisted one no status write is made and the
  reconcile returns no error; when they differ exactly one status write is made, and
  it carries the object with the computed status.
\<close>

theorem Reconcile_status_write:
  assumes get: "client_Get r name = (Inr cqObj, r1)"
    and st: "Status r1 cqObj = (Inr status, r2)"
  shows "if Semantic_DeepEqual status (cq_Status cqObj)
     then fst (Reconcile r name) = None \<and>
          status_writes (snd (Reconcile r name)) = status_writes r
     else status_writes (snd (Reconcile r name)) =
            status_writes r @ [cqObj\<lparr>cq_Status := status\<rparr>]"
proof -
  have c2: "calls r2 = calls r @ [GetCall name]"
    using client_Get_calls [OF get] Status_calls [OF st] by simp
  show ?thesis
  proof (cases "Semantic_DeepEqual status (cq_Status cqObj)")
    case True
    then show ?thesis
      using status_writes_append [OF c2] by (simp add: Reconcile_unfold [OF get st])
  next
    case False
    obtain e r3 where u: "client_Status_Update r2 (cqObj\<lparr>cq_Status := status\<rparr>) = (e, r3)"
      by (cases "client_Status_Update r2 (cqObj\<lparr>cq_Status := status\<rparr>)")
    have "calls r3 = calls r @ [GetCall name, StatusUpdateCall (cqObj\<lparr>cq_Status := status\<rparr>)]"
      using client_Status_Update_calls [OF u] c2 by simp
    from status_writes_append [OF this] show ?thesis
      using False u by (simp add: Reconcile_unfold [OF get st])
  qed
qed

text \<open>
  The statuses of the specification's example: the same used resources entered in
  another order, one admitted and three pending workloads, give no write; a fourth
  pending workload gives one write with the new status.
\<close>

theorem Reconcile_status_write_witness:
  "Semantic_DeepEqual (ex_computed 3) (cq_Status ex_persisted) \<and>
   fst (Reconcile (ex_reconcile 3 None) ''q'') = None \<and>
   status_writes (snd (Reconcile (ex_reconcile 3 None) ''q'')) = [] \<and>
   \<not> Semantic_DeepEqual (ex_computed 4) (cq_Status ex_persisted) \<and>
   status_writes (snd (Reconcile (ex_reconcile 4 None) ''q'')) =
     [ex_persisted\<lparr>cq_Status := ex_computed 4\<rparr>]"
  using Reconcile_status_write [OF ex_reconcile_Get ex_reconcile_Status, of 3 None]
    Reconcile_status_write [OF ex_reconcile_Get ex_reconcile_Status, of 4 None]
    ex_equal ex_differ
  by (simp add: ex_reconcile_writes)

subsection \<open>C7: the error of a failed status write\<close>

text \<open>
  C7, as amended. When the status write of a reconcile returns an error, the reconcile
  returns no error if that error is a not-found error, and returns the error itself
  otherwise: \<^verbatim>\<open>client.IgnoreNotFound\<close> is the only filter, so a conflict is returned
  like any other error.
\<close>

theorem Reconcile_write_error:
  assumes get: "client_Get r name = (Inr cqObj, r1)"
    and st: "Status r1 cqObj = (Inr status, r2)"
    and diff: "\<not> Semantic_DeepEqual status (cq_Status cqObj)"
    and wr: "client_Status_Update r2 (cqObj\<lparr>cq_Status := status\<rparr>) = (err, r3)"
  shows "fst (Reconcile r name) = (if err = Some NotFound then None else err)"
  using diff wr by (simp add: Reconcile_unfold [OF get st] IgnoreNotFound_def)

text \<open>
  A not-found error of the write is swallowed; a timeout and a conflict are returned.
\<close>

theorem Reconcile_write_error_witness:
  "\<not> Semantic_DeepEqual (ex_computed 4) (cq_Status ex_persisted) \<and>
   fst (Reconcile (ex_reconcile 4 (Some NotFound)) ''q'') = None \<and>
   fst (Reconcile (ex_reconcile 4 (Some (Other ''timeout''))) ''q'') = Some (Other ''timeout'') \<and>
   fst (Reconcile (ex_reconcile 4 (Some Conflict)) ''q'') = Some Conflict"
proof -
  have w: "client_Status_Update ((ex_reconcile 4 (Some e))\<lparr>calls := [GetCall ''q'']\<rparr>)
             (ex_persisted\<lparr>cq_Status := ex_computed 4\<rparr>) =
           (Some e, snd (client_Status_Update ((ex_reconcile 4 (Some e))\<lparr>calls := [GetCall ''q'']\<rparr>)
             (ex_persisted\<lparr>cq_Status := ex_computed 4\<rparr>)))" for e
    using ex_reconcile_write [of 4 e "ex_persisted\<lparr>cq_Status := ex_computed 4\<rparr>"]
    by (simp add: prod_eq_iff)
  show ?thesis
    using Reconcile_write_error [OF ex_reconcile_Get ex_reconcile_Status ex_differ w, of NotFound]
      Reconcile_write_error [OF ex_reconcile_Get ex_reconcile_Status ex_differ w, of "Other ''timeout''"]
      Reconcile_write_error [OF ex_reconcile_Get ex_reconcile_Status ex_differ w, of Conflict]
      ex_differ
    by simp
qed

text \<open>
  C7 as stated fails: the status write is made and answers with a conflict, and the
  reconcile returns that conflict.
\<close>

theorem Reconcile_conflict_counterexample:
  "status_writes (snd (Reconcile (ex_reconcile 4 (Some Conflict)) ''q'')) =
     [ex_persisted\<lparr>cq_Status := ex_computed 4\<rparr>] \<and>
   fst (client_Status_Update ((ex_reconcile 4 (Some Conflict))\<lparr>calls := [GetCall ''q'']\<rparr>)
          (ex_persisted\<lparr>cq_Status := ex_computed 4\<rparr>)) = Some Conflict \<and>
   fst (Reconcile (ex_reconcile 4 (Some Conflict)) ''q'') = Some Conflict"
proof -
  let ?r2 = "(ex_reconcile 4 (Some Conflict))\<lparr>calls := [GetCall ''q'']\<rparr>"
  let ?cq = "ex_persisted\<lparr>cq_Status := ex_computed 4\<rparr>"
  have W: "client_Status_Update ?r2 ?cq =
      (Some Conflict, ?r2\<lparr>calls := [GetCall ''q'', StatusUpdateCall ?cq]\<rparr>)"
    by (simp add: client_Status_Update_def ex_reconcile_def ex_reconciler_def count_calls_def
          Let_def)
  have R: "Reconcile (ex_reconcile 4 (Some Conflict)) ''q'' =
      (Some Conflict, ?r2\<lparr>calls := [GetCall ''q'', StatusUpdateCall ?cq]\<rparr>)"
    using ex_differ
    by (simp add: Reconcile_unfold [OF ex_reconcile_Get ex_reconcile_Status] W
          IgnoreNotFound_def)
  show ?thesis by (simp add: R W status_writes_def)
qed

end
